theory Spec2Isabelle
  imports Complex_Main
begin

section \<open>The KTBB structural level engine (sse\_engine.py)\<close>

text \<open>
  The engine is a pure function of fifteen Python floats. Floats are modelled as real
  numbers: every theorem below is about the exact arithmetic the source writes down
  (comparisons, \<open>min\<close>, \<open>max\<close>, \<open>abs\<close>, the four operations and \<open>round(x, 1)\<close>),
  not about the rounding error of IEEE doubles, infinities or NaN. The decimal
  constants of the source (\<open>0.0015\<close>, \<open>0.05\<close>, \<open>1e-9\<close>) stand for their decimal values.
\<close>

subsection \<open>Python's \<open>round(x, 1)\<close>\<close>

text \<open>
  Python rounds to the nearest value with the requested number of decimals and resolves
  an exact tie towards the even last digit. \<open>py_round\<close> is the integer rounding,
  \<open>round1\<close> is \<open>round(x, 1)\<close>.
\<close>

definition py_round :: "real \<Rightarrow> int" where
  "py_round x =
     (let f = \<lfloor>x\<rfloor>; d = x - of_int f
      in if d < 1 / 2 then f
         else if 1 / 2 < d then f + 1
         else if even f then f else f + 1)"

definition round1 :: "real \<Rightarrow> real" where
  "round1 x = of_int (py_round (x * 10)) / 10"

subsection \<open>Helper functions (lines 32--126)\<close>

text \<open>\<open>_pct_diff\<close>, lines 32--35.\<close>

definition pct_diff :: "real \<Rightarrow> real \<Rightarrow> real" where
  "pct_diff a b =
     (let denom = (if \<bar>b\<bar> > 1 / 10 ^ 9 then \<bar>b\<bar> else 1.0)
      in \<bar>a - b\<bar> / denom)"

text \<open>
  \<open>_frvp_alignment\<close>, lines 38--72. The role is the source's string; everything that is
  not \<open>"resistance"\<close> takes the support branch. \<open>candidates\<close> is the list built at lines
  60--63 and \<open>min_pct\<close> the minimum of line 66; the list always has four elements, so
  Python's \<open>min\<close> never sees an empty sequence.
\<close>

definition candidates :: "string \<Rightarrow> real \<Rightarrow> real \<Rightarrow> real \<Rightarrow> real \<Rightarrow> real \<Rightarrow> real \<Rightarrow> real list" where
  "candidates role weekly_val weekly_poc weekly_vah f24_val f24_poc f24_vah =
     (if role = ''resistance''
      then [weekly_vah, weekly_poc, f24_vah, f24_poc]
      else [weekly_val, weekly_poc, f24_val, f24_poc])"

definition min_pct :: "real \<Rightarrow> real list \<Rightarrow> real" where
  "min_pct level cands = min_list (map (\<lambda>x. pct_diff level x) cands)"

definition frvp_alignment ::
  "real \<Rightarrow> string \<Rightarrow> real \<Rightarrow> real \<Rightarrow> real \<Rightarrow> real \<Rightarrow> real \<Rightarrow> real \<Rightarrow> int" where
  "frvp_alignment level role weekly_val weekly_poc weekly_vah f24_val f24_poc f24_vah =
     (let m = min_pct level
                (candidates role weekly_val weekly_poc weekly_vah f24_val f24_poc f24_vah)
      in if m \<le> 0.0015 then 2
         else if m \<le> 0.0030 then 1
         else 0)"

text \<open>
  \<open>_htf_strength\<close>, lines 75--126. \<open>htf_raw\<close> is the integer \<open>raw\<close> of lines 104--123,
  \<open>htf_unrounded\<close> the variable \<open>strength\<close> of line 125 and \<open>htf_strength\<close> the value
  returned at line 126.
\<close>

definition htf_raw ::
  "real \<Rightarrow> string \<Rightarrow> string \<Rightarrow> real \<Rightarrow> real \<Rightarrow> real \<Rightarrow> real \<Rightarrow> real \<Rightarrow> real \<Rightarrow> int" where
  "htf_raw level tf role weekly_val weekly_poc weekly_vah f24_val f24_poc f24_vah =
     (let touches = 1;
          volume_rating = 1;
          frvp_align = frvp_alignment level role weekly_val weekly_poc weekly_vah
                         f24_val f24_poc f24_vah;
          structural_tag = (if tf = ''4H'' then 1 else 0)
      in 3 * touches + 2 * volume_rating + 2 * frvp_align + 1 * structural_tag)"

definition htf_unrounded ::
  "real \<Rightarrow> string \<Rightarrow> string \<Rightarrow> real \<Rightarrow> real \<Rightarrow> real \<Rightarrow> real \<Rightarrow> real \<Rightarrow> real \<Rightarrow> real" where
  "htf_unrounded level tf role weekly_val weekly_poc weekly_vah f24_val f24_poc f24_vah =
     (let raw = htf_raw level tf role weekly_val weekly_poc weekly_vah f24_val f24_poc f24_vah
      in max 0.0 (min 10.0 (of_int raw * (10.0 / 12.0))))"

definition htf_strength ::
  "real \<Rightarrow> string \<Rightarrow> string \<Rightarrow> real \<Rightarrow> real \<Rightarrow> real \<Rightarrow> real \<Rightarrow> real \<Rightarrow> real \<Rightarrow> real" where
  "htf_strength level tf role weekly_val weekly_poc weekly_vah f24_val f24_poc f24_vah =
     round1 (htf_unrounded level tf role weekly_val weekly_poc weekly_vah f24_val f24_poc f24_vah)"

subsection \<open>Level selection (lines 129--248)\<close>

text \<open>The dictionaries of lines 181--194 and 227--240.\<close>

record shelf =
  tf :: string
  level :: real
  strength :: real
  primary :: bool

text \<open>
  The support side of \<open>_choose_daily_levels\<close>, lines 150--194: the strength-selected
  daily support and the two shelf records.
\<close>

definition select_support ::
  "real \<Rightarrow> real \<Rightarrow> real \<Rightarrow> real \<Rightarrow> real \<Rightarrow> real \<Rightarrow> real \<Rightarrow> real \<Rightarrow> real \<times> shelf list" where
  "select_support h4_demand h1_demand weekly_val weekly_poc weekly_vah f24_val f24_poc f24_vah =
     (let s4h = htf_strength h4_demand ''4H'' ''support'' weekly_val weekly_poc weekly_vah
                  f24_val f24_poc f24_vah;
          s1h = htf_strength h1_demand ''1H'' ''support'' weekly_val weekly_poc weekly_vah
                  f24_val f24_poc f24_vah;
          (daily_support, primary_support_tf) =
            (if s4h \<ge> s1h then (h4_demand, ''4H'') else (h1_demand, ''1H''));
          htf_support =
            [\<lparr>tf = ''4H'', level = h4_demand, strength = s4h,
               primary = (primary_support_tf = ''4H'')\<rparr>,
             \<lparr>tf = ''1H'', level = h1_demand, strength = s1h,
               primary = (primary_support_tf = ''1H'')\<rparr>]
      in (daily_support, htf_support))"

text \<open>The resistance side, lines 196--240.\<close>

definition select_resistance ::
  "real \<Rightarrow> real \<Rightarrow> real \<Rightarrow> real \<Rightarrow> real \<Rightarrow> real \<Rightarrow> real \<Rightarrow> real \<Rightarrow> real \<times> shelf list" where
  "select_resistance h4_supply h1_supply weekly_val weekly_poc weekly_vah f24_val f24_poc f24_vah =
     (let r4h = htf_strength h4_supply ''4H'' ''resistance'' weekly_val weekly_poc weekly_vah
                  f24_val f24_poc f24_vah;
          r1h = htf_strength h1_supply ''1H'' ''resistance'' weekly_val weekly_poc weekly_vah
                  f24_val f24_poc f24_vah;
          (daily_resistance, primary_res_tf) =
            (if r4h \<ge> r1h then (h4_supply, ''4H'') else (h1_supply, ''1H''));
          htf_resistance =
            [\<lparr>tf = ''4H'', level = h4_supply, strength = r4h,
               primary = (primary_res_tf = ''4H'')\<rparr>,
             \<lparr>tf = ''1H'', level = h1_supply, strength = r1h,
               primary = (primary_res_tf = ''1H'')\<rparr>]
      in (daily_resistance, htf_resistance))"

text \<open>\<open>_choose_daily_levels\<close>: the two sides, then the safety fallback of lines 242--248.\<close>

definition choose_daily_levels ::
  "real \<Rightarrow> real \<Rightarrow> real \<Rightarrow> real \<Rightarrow> real \<Rightarrow> real \<Rightarrow> real \<Rightarrow> real \<Rightarrow> real \<Rightarrow> real
     \<Rightarrow> real \<times> real \<times> shelf list \<times> shelf list" where
  "choose_daily_levels h4_supply h4_demand h1_supply h1_demand
       weekly_val weekly_poc weekly_vah f24_val f24_poc f24_vah =
     (let (daily_support, htf_support) =
            select_support h4_demand h1_demand weekly_val weekly_poc weekly_vah
              f24_val f24_poc f24_vah;
          (daily_resistance, htf_resistance) =
            select_resistance h4_supply h1_supply weekly_val weekly_poc weekly_vah
              f24_val f24_poc f24_vah;
          (daily_support, daily_resistance) =
            (if daily_support \<ge> daily_resistance
             then (min h4_demand h1_demand, max h4_supply h1_supply)
             else (daily_support, daily_resistance))
      in (daily_support, daily_resistance, htf_resistance, htf_support))"

subsection \<open>Trigger construction (lines 251--323)\<close>

text \<open>
  \<open>_build_triggers\<close>. Each reassignment of \<open>breakdown\<close> and \<open>breakout\<close> is a new binding of
  the same name; \<open>morn_poc\<close> is a parameter the body never reads. The result is the pair
  \<open>(breakdown, breakout)\<close>, in the source's order.
\<close>

definition build_triggers ::
  "real \<Rightarrow> real \<Rightarrow> real \<Rightarrow> real \<Rightarrow> real \<Rightarrow> real \<Rightarrow> real \<Rightarrow> real \<Rightarrow> real
     \<Rightarrow> real \<Rightarrow> real \<Rightarrow> real \<Rightarrow> real \<Rightarrow> real \<Rightarrow> real \<times> real" where
  "build_triggers daily_support daily_resistance h4_supply h4_demand h1_supply h1_demand
       f24_val f24_poc f24_vah morn_val morn_poc morn_vah r30_high r30_low =
     (let span = max (daily_resistance - daily_support) 1.0;
          breakout_candidate =
            Max {h1_supply, h4_supply, f24_vah, f24_poc, morn_vah, r30_high};
          breakdown_candidate =
            Min {h1_demand, h4_demand, f24_val, f24_poc, morn_val, r30_low};
          min_gap_from_edges = max (span * 0.05) (daily_support * 0.0015);
          breakdown = breakdown_candidate;
          breakout = breakout_candidate;
          breakdown = (if breakdown \<le> daily_support + min_gap_from_edges
                       then daily_support + min_gap_from_edges else breakdown);
          breakout = (if breakout \<ge> daily_resistance - min_gap_from_edges
                      then daily_resistance - min_gap_from_edges else breakout);
          (breakdown, breakout) =
            (if breakout \<le> breakdown + min_gap_from_edges
             then (let mid = (daily_support + daily_resistance) / 2.0
                   in (mid - min_gap_from_edges / 2.0, mid + min_gap_from_edges / 2.0))
             else (breakdown, breakout));
          breakdown = max (daily_support + min_gap_from_edges)
                        (min breakdown (daily_resistance - 2 * min_gap_from_edges));
          breakout = max (breakdown + min_gap_from_edges)
                       (min breakout (daily_resistance - min_gap_from_edges))
      in (breakdown, breakout))"

subsection \<open>Public API (lines 330--406)\<close>

text \<open>The dictionary returned by \<open>compute_dm_levels\<close>.\<close>

record dm_levels =
  daily_support :: real
  daily_resistance :: real
  breakout_trigger :: real
  breakdown_trigger :: real
  htf_resistance :: "shelf list"
  htf_support :: "shelf list"

definition compute_dm_levels ::
  "real \<Rightarrow> real \<Rightarrow> real \<Rightarrow> real \<Rightarrow> real \<Rightarrow> real \<Rightarrow> real \<Rightarrow> real \<Rightarrow> real \<Rightarrow> real
     \<Rightarrow> real \<Rightarrow> real \<Rightarrow> real \<Rightarrow> real \<Rightarrow> real \<Rightarrow> dm_levels" where
  "compute_dm_levels h4_supply h4_demand h1_supply h1_demand
       weekly_val weekly_poc weekly_vah f24_val f24_poc f24_vah
       morn_val morn_poc morn_vah r30_high r30_low =
     (let (daily_support, daily_resistance, htf_resistance, htf_support) =
            choose_daily_levels h4_supply h4_demand h1_supply h1_demand
              weekly_val weekly_poc weekly_vah f24_val f24_poc f24_vah;
          (breakdown_trigger, breakout_trigger) =
            build_triggers daily_support daily_resistance
              h4_supply h4_demand h1_supply h1_demand
              f24_val f24_poc f24_vah morn_val morn_poc morn_vah r30_high r30_low
      in \<lparr>daily_support = round1 daily_support,
          daily_resistance = round1 daily_resistance,
          breakout_trigger = round1 breakout_trigger,
          breakdown_trigger = round1 breakdown_trigger,
          htf_resistance = htf_resistance,
          htf_support = htf_support\<rparr>)"

subsection \<open>Reference notions of the specification\<close>

text \<open>
  ``Rounded to one decimal place'': the value is a whole number of tenths, and it is
  within half a tenth of the value it was rounded from.
\<close>

definition is_tenth :: "real \<Rightarrow> bool" where
  "is_tenth y = (y * 10 = of_int \<lfloor>y * 10\<rfloor>)"

definition nearest_tenth :: "real \<Rightarrow> real \<Rightarrow> bool" where
  "nearest_tenth x y = (is_tenth y \<and> \<bar>y - x\<bar> \<le> 1 / 20)"

text \<open>
  The spacing \<open>min_gap_from_edges\<close> of the trigger builder (lines 279 and 301) as a
  function of the daily band.
\<close>

definition min_gap :: "real \<Rightarrow> real \<Rightarrow> real" where
  "min_gap S R = (let span = max (R - S) 1.0 in max (span * 0.05) (S * 0.0015))"

text \<open>
  The alignment score as section 4.1 of the specification words it: two roles, four
  role-dependent reference marks, the minimum of a distance \<open>d\<close> over the four, and the
  two thresholds. \<open>spec_distance\<close> is the distance as the specification writes it,
  \<open>guarded_distance\<close> divides by the reference's magnitude unless that magnitude is at
  most \<open>1e-9\<close>, where it divides by 1.
\<close>

datatype role_kind = Resistance | Support

definition role_name :: "role_kind \<Rightarrow> string" where
  "role_name k = (case k of Resistance \<Rightarrow> ''resistance'' | Support \<Rightarrow> ''support'')"

definition spec_distance :: "real \<Rightarrow> real \<Rightarrow> real" where
  "spec_distance x ref = \<bar>x - ref\<bar> / max \<bar>ref\<bar> 1.0"

definition guarded_distance :: "real \<Rightarrow> real \<Rightarrow> real" where
  "guarded_distance x ref = (if 1 / 10 ^ 9 < \<bar>ref\<bar> then \<bar>x - ref\<bar> / \<bar>ref\<bar> else \<bar>x - ref\<bar> / 1.0)"

definition spec_references ::
  "role_kind \<Rightarrow> real \<Rightarrow> real \<Rightarrow> real \<Rightarrow> real \<Rightarrow> real \<Rightarrow> real \<Rightarrow> real set" where
  "spec_references k wv wp wh fv fp fh =
     (case k of Resistance \<Rightarrow> {wh, wp, fh, fp} | Support \<Rightarrow> {wv, wp, fv, fp})"

definition spec_alignment ::
  "(real \<Rightarrow> real \<Rightarrow> real) \<Rightarrow> real \<Rightarrow> role_kind
     \<Rightarrow> real \<Rightarrow> real \<Rightarrow> real \<Rightarrow> real \<Rightarrow> real \<Rightarrow> real \<Rightarrow> int" where
  "spec_alignment d x k wv wp wh fv fp fh =
     (let m = Min (d x ` spec_references k wv wp wh fv fp fh)
      in if m \<le> 0.0015 then 2 else if m \<le> 0.0030 then 1 else 0)"

section \<open>Rounding\<close>

lemma round1_example: "round1 (25 / 3) = 83 / 10"
  by (simp add: round1_def py_round_def Let_def)

lemma py_round_near: "\<bar>of_int (py_round x) - x\<bar> \<le> 1 / 2"
  unfolding py_round_def Let_def by (simp; linarith)

lemma round1_near: "\<bar>round1 x - x\<bar> \<le> 1 / 20"
proof -
  define k where "k = real_of_int (py_round (x * 10))"
  have "\<bar>k - x * 10\<bar> \<le> 1 / 2"
    unfolding k_def by (rule py_round_near)
  then have "- (1 / 2) \<le> k - x * 10" and "k - x * 10 \<le> 1 / 2"
    by linarith+
  moreover have "round1 x = k / 10"
    by (simp add: round1_def k_def)
  ultimately show ?thesis
    by linarith
qed

lemma round1_is_tenth: "is_tenth (round1 x)"
  by (simp add: is_tenth_def round1_def)

lemma round1_nearest_tenth: "nearest_tenth x (round1 x)"
  unfolding nearest_tenth_def using round1_is_tenth [of x] round1_near [of x] by blast

lemma py_round_of_int: "py_round (of_int k) = k"
  by (simp add: py_round_def)

lemma py_round_ge_floor: "\<lfloor>x\<rfloor> \<le> py_round x"
  by (simp add: py_round_def Let_def)

lemma py_round_le_floor_Suc: "py_round x \<le> \<lfloor>x\<rfloor> + 1"
  by (simp add: py_round_def Let_def)

lemma py_round_mono:
  assumes "x \<le> y"
  shows "py_round x \<le> py_round y"
proof (cases "\<lfloor>x\<rfloor> = \<lfloor>y\<rfloor>")
  case True
  with assms show ?thesis
    by (auto simp add: py_round_def Let_def)
next
  case False
  moreover have "\<lfloor>x\<rfloor> \<le> \<lfloor>y\<rfloor>"
    using assms by (rule floor_mono)
  ultimately have "\<lfloor>x\<rfloor> + 1 \<le> \<lfloor>y\<rfloor>"
    by simp
  with py_round_le_floor_Suc [of x] py_round_ge_floor [of y] show ?thesis
    by linarith
qed

lemma round1_mono: "x \<le> y \<Longrightarrow> round1 x \<le> round1 y"
  unfolding round1_def using py_round_mono [of "x * 10" "y * 10"]
  by (simp add: divide_right_mono)

lemma round1_of_int: "round1 (of_int k) = of_int k"
proof -
  have "real_of_int k * 10 = of_int (k * 10)"
    by simp
  then have "py_round (real_of_int k * 10) = k * 10"
    by (simp only: py_round_of_int)
  then show ?thesis
    by (simp add: round1_def)
qed

lemma round1_lower: "0 \<le> x \<Longrightarrow> 0 \<le> round1 x"
  using round1_mono [of 0 x] round1_of_int [of 0] by simp

lemma round1_upper: "x \<le> 10 \<Longrightarrow> round1 x \<le> 10"
  using round1_mono [of x 10] round1_of_int [of 10] by simp

section \<open>Alignment and strength\<close>

lemma frvp_alignment_range:
  "frvp_alignment lv r wv wp wh fv fp fh \<in> {0, 1, 2}"
  by (simp add: frvp_alignment_def Let_def)

lemma htf_raw_eq:
  "htf_raw lv t r wv wp wh fv fp fh =
     5 + 2 * frvp_alignment lv r wv wp wh fv fp fh + (if t = ''4H'' then 1 else 0)"
  by (simp add: htf_raw_def Let_def)

lemma scaled_values:
  "round1 (max 0 (min 10 (of_int 5 * (10 / 12)))) = 4.2"
  "round1 (max 0 (min 10 (of_int 6 * (10 / 12)))) = 5.0"
  "round1 (max 0 (min 10 (of_int 7 * (10 / 12)))) = 5.8"
  "round1 (max 0 (min 10 (of_int 8 * (10 / 12)))) = 6.7"
  "round1 (max 0 (min 10 (of_int 9 * (10 / 12)))) = 7.5"
  "round1 (max 0 (min 10 (of_int 10 * (10 / 12)))) = 8.3"
  by (simp_all add: round1_def py_round_def Let_def)

lemma htf_raw_range: "htf_raw lv t r wv wp wh fv fp fh \<in> {5, 6, 7, 8, 9, 10}"
  using frvp_alignment_range [of lv r wv wp wh fv fp fh]
  by (auto simp add: htf_raw_eq)

lemma htf_strength_eq:
  "htf_strength lv t r wv wp wh fv fp fh =
     round1 (max 0 (min 10 (of_int (htf_raw lv t r wv wp wh fv fp fh) * (10 / 12))))"
  by (simp add: htf_strength_def htf_unrounded_def Let_def)

lemma clamp_inactive:
  "k \<in> {5, 6, 7, 8, 9, 10} \<Longrightarrow>
     max 0 (min 10 (real_of_int k * (10 / 12))) = real_of_int k * (10 / 12)"
  by auto

text \<open>
  Claim C10. With the placeholder factors \<open>touches = 1\<close> and \<open>volume_rating = 1\<close> the
  raw score is one of 5, ..., 10, so the strength is one of the six values 4.2, 5.0,
  5.8, 6.7, 7.5 and 8.3; it lies in [4.2, 8.3], and the clamp to [0, 10] leaves the
  scaled raw score as it is.
\<close>

theorem htf_strength_six_values:
  "htf_strength lv t r wv wp wh fv fp fh \<in> {4.2, 5.0, 5.8, 6.7, 7.5, 8.3}
   \<and> 4.2 \<le> htf_strength lv t r wv wp wh fv fp fh
   \<and> htf_strength lv t r wv wp wh fv fp fh \<le> 8.3
   \<and> htf_raw lv t r wv wp wh fv fp fh \<in> {5, 6, 7, 8, 9, 10}
   \<and> max 0.0 (min 10.0 (of_int (htf_raw lv t r wv wp wh fv fp fh) * (10.0 / 12.0)))
       = (of_int (htf_raw lv t r wv wp wh fv fp fh) * (10.0 / 12.0) :: real)"
proof -
  let ?k = "htf_raw lv t r wv wp wh fv fp fh"
  let ?s = "htf_strength lv t r wv wp wh fv fp fh"
  have k: "?k \<in> {5, 6, 7, 8, 9, 10}"
    by (rule htf_raw_range)
  then consider "?k = 5" | "?k = 6" | "?k = 7" | "?k = 8" | "?k = 9" | "?k = 10"
    by auto
  then have s: "?s = 4.2 \<or> ?s = 5.0 \<or> ?s = 5.8 \<or> ?s = 6.7 \<or> ?s = 7.5 \<or> ?s = 8.3"
    by cases (simp_all only: htf_strength_eq scaled_values, simp_all)
  have c: "max 0 (min 10 (real_of_int ?k * (10 / 12))) = real_of_int ?k * (10 / 12)"
    using k by (rule clamp_inactive)
  from s have "?s \<in> {4.2, 5.0, 5.8, 6.7, 7.5, 8.3}"
    by blast
  moreover from s have "4.2 \<le> ?s" and "?s \<le> 8.3"
    by auto
  ultimately show ?thesis
    using k c by simp
qed

text \<open>
  Claim C4. The strength is the raw score \<open>3 * 1 + 2 * 1 + 2 * alignment + tag\<close>, with
  tag 1 for the timeframe \<open>"4H"\<close> and 0 otherwise, scaled by 10/12, clamped to [0, 10]
  and rounded to one decimal; the result lies in [0, 10] and is a whole number of
  tenths.
\<close>

theorem htf_strength_formula:
  "htf_strength lv t r wv wp wh fv fp fh =
     round1 (max 0 (min 10
       (of_int (3 * 1 + 2 * 1 + 2 * frvp_alignment lv r wv wp wh fv fp fh
                + 1 * (if t = ''4H'' then 1 else 0)) * (10 / 12))))
   \<and> 0 \<le> htf_strength lv t r wv wp wh fv fp fh
   \<and> htf_strength lv t r wv wp wh fv fp fh \<le> 10
   \<and> is_tenth (htf_strength lv t r wv wp wh fv fp fh)"
proof -
  let ?s = "htf_strength lv t r wv wp wh fv fp fh"
  let ?u = "max 0 (min 10 (real_of_int (htf_raw lv t r wv wp wh fv fp fh) * (10 / 12)))"
  have eq: "?s = round1 ?u"
    by (rule htf_strength_eq)
  have "0 \<le> ?u" and "?u \<le> 10"
    by simp_all
  then have "0 \<le> round1 ?u" and "round1 ?u \<le> 10"
    by (simp_all only: round1_lower round1_upper)
  moreover have "is_tenth (round1 ?u)"
    by (rule round1_is_tenth)
  moreover have "?s = round1 (max 0 (min 10
       (of_int (3 * 1 + 2 * 1 + 2 * frvp_alignment lv r wv wp wh fv fp fh
                + 1 * (if t = ''4H'' then 1 else 0)) * (10 / 12))))"
    by (simp add: htf_strength_def htf_unrounded_def htf_raw_def Let_def)
  ultimately show ?thesis
    using eq by simp
qed

section \<open>The alignment scorer against its specification\<close>

lemma guarded_distance_pct_diff: "guarded_distance x ref = pct_diff x ref"
  by (simp add: guarded_distance_def pct_diff_def Let_def)

lemma min_pct_four:
  "min_pct x [a, b, c, d] = Min {pct_diff x a, pct_diff x b, pct_diff x c, pct_diff x d}"
  by (simp add: min_pct_def)

text \<open>
  Claim C3, as stated, fails for a reference mark whose magnitude lies between \<open>1e-9\<close>
  and 1: the source divides by the magnitude itself, the stated distance by 1. A level of
  0.5 under role Support with the marks 0.499, 0.52, 0.55 (weekly) and 0.49, 0.51, 0.53
  (24h) scores 1 in the source and 2 under the stated definition.
\<close>

theorem frvp_alignment_spec_counterexample:
  "frvp_alignment 0.5 (role_name Support) 0.499 0.52 0.55 0.49 0.51 0.53
     \<noteq> spec_alignment spec_distance 0.5 Support 0.499 0.52 0.55 0.49 0.51 0.53"
  by (simp add: frvp_alignment_def min_pct_def candidates_def pct_diff_def role_name_def
      spec_alignment_def spec_references_def spec_distance_def Let_def)

text \<open>
  Claim C3, amended. For every level, role and six reference marks the alignment score
  equals the reference definition with the distance
  \<open>d(level, ref) = |level - ref| / |ref|\<close> when \<open>|ref| > 1e-9\<close> and
  \<open>|level - ref| / 1.0\<close> otherwise: the minimum of \<open>d\<close> over the four role-dependent
  marks, scored 2 when at most 0.0015, 1 when at most 0.0030, else 0.
\<close>

theorem frvp_alignment_guarded:
  "frvp_alignment x (role_name k) wv wp wh fv fp fh
     = spec_alignment guarded_distance x k wv wp wh fv fp fh"
proof -
  have d: "guarded_distance x = pct_diff x"
    by (rule ext) (rule guarded_distance_pct_diff)
  show ?thesis
  proof (cases k)
    case Resistance
    then show ?thesis
      by (simp add: frvp_alignment_def candidates_def role_name_def min_pct_four
          spec_alignment_def spec_references_def d Let_def)
  next
    case Support
    then show ?thesis
      by (simp add: frvp_alignment_def candidates_def role_name_def min_pct_four
          spec_alignment_def spec_references_def d Let_def)
  qed
qed

text \<open>
  The stated distance and the source's agree on every reference mark of magnitude at
  least 1 or at most \<open>1e-9\<close>.
\<close>

lemma spec_distance_agrees:
  "1 \<le> \<bar>ref\<bar> \<or> \<bar>ref\<bar> \<le> 1 / 10 ^ 9 \<Longrightarrow> spec_distance x ref = pct_diff x ref"
  by (auto simp add: spec_distance_def pct_diff_def Let_def max_def)

lemma frvp_alignment_threshold:
  "frvp_alignment x r wv wp wh fv fp fh =
     (let m = min_pct x (candidates r wv wp wh fv fp fh)
      in if m \<le> 0.0015 then 2 else if m \<le> 0.0030 then 1 else 0)"
  by (simp add: frvp_alignment_def)



text \<open>
  In particular, moving a level strictly closer to the mark that is nearest to it never
  lowers the score.
\<close>

lemma min_pct_le_member:
  "ref \<in> set cs \<Longrightarrow> min_pct x cs \<le> pct_diff x ref"
proof (induction cs)
  case Nil
  then show ?case by simp
next
  case (Cons c cs)
  then show ?case
    by (cases cs) (auto simp add: min_pct_def min_le_iff_disj)
qed

lemma pct_diff_closer:
  "\<bar>x' - ref\<bar> < \<bar>x - ref\<bar> \<Longrightarrow> pct_diff x' ref < pct_diff x ref"
  by (simp add: pct_diff_def Let_def divide_strict_right_mono)

lemma closer_to_nearest_mark:
  assumes "ref \<in> set (candidates r wv wp wh fv fp fh)"
    and "pct_diff x ref = min_pct x (candidates r wv wp wh fv fp fh)"
    and "\<bar>x' - ref\<bar> < \<bar>x - ref\<bar>"
  shows "frvp_alignment x r wv wp wh fv fp fh \<le> frvp_alignment x' r wv wp wh fv fp fh"
proof -
  have "min_pct x' (candidates r wv wp wh fv fp fh) \<le> pct_diff x' ref"
    using assms(1) by (rule min_pct_le_member)
  also have "\<dots> < pct_diff x ref"
    using assms(3) by (rule pct_diff_closer)
  finally have "min_pct x' (candidates r wv wp wh fv fp fh)
      < min_pct x (candidates r wv wp wh fv fp fh)"
    using assms(2) by simp
  then show ?thesis
    unfolding frvp_alignment_threshold Let_def by auto
qed

section \<open>The trigger builder\<close>

lemma build_triggers_breakdown_ge:
  "S + min_gap S R
     \<le> fst (build_triggers S R h4s h4d h1s h1d fv fp fh mv mp mh rh rl)"
  unfolding build_triggers_def min_gap_def Let_def case_prod_beta fst_conv snd_conv
  by (rule max.cobounded1)

lemma build_triggers_breakout_ge:
  "fst (build_triggers S R h4s h4d h1s h1d fv fp fh mv mp mh rh rl) + min_gap S R
     \<le> snd (build_triggers S R h4s h4d h1s h1d fv fp fh mv mp mh rh rl)"
  unfolding build_triggers_def min_gap_def Let_def case_prod_beta fst_conv snd_conv
  by (rule max.cobounded1)

lemma min_gap_ge: "0.05 \<le> min_gap S R"
proof -
  have "(1::real) \<le> max (R - S) 1"
    by simp
  then have "(0.05::real) \<le> max (R - S) 1 * 0.05"
    by simp
  then show ?thesis
    unfolding min_gap_def Let_def by (simp add: le_max_iff_disj)
qed


section \<open>Level selection\<close>

lemmas engine_defs =
  htf_strength_def htf_unrounded_def htf_raw_def frvp_alignment_def min_pct_def
  candidates_def pct_diff_def round1_def py_round_def Let_def

lemma select_support_eq:
  "select_support h4d h1d wv wp wh fv fp fh =
     (let s4h = htf_strength h4d ''4H'' ''support'' wv wp wh fv fp fh;
          s1h = htf_strength h1d ''1H'' ''support'' wv wp wh fv fp fh
      in (if s1h \<le> s4h then h4d else h1d,
          [\<lparr>tf = ''4H'', level = h4d, strength = s4h, primary = (s1h \<le> s4h)\<rparr>,
           \<lparr>tf = ''1H'', level = h1d, strength = s1h, primary = (\<not> s1h \<le> s4h)\<rparr>]))"
  by (simp add: select_support_def Let_def)

lemma select_resistance_eq:
  "select_resistance h4s h1s wv wp wh fv fp fh =
     (let r4h = htf_strength h4s ''4H'' ''resistance'' wv wp wh fv fp fh;
          r1h = htf_strength h1s ''1H'' ''resistance'' wv wp wh fv fp fh
      in (if r1h \<le> r4h then h4s else h1s,
          [\<lparr>tf = ''4H'', level = h4s, strength = r4h, primary = (r1h \<le> r4h)\<rparr>,
           \<lparr>tf = ''1H'', level = h1s, strength = r1h, primary = (\<not> r1h \<le> r4h)\<rparr>]))"
  by (simp add: select_resistance_def Let_def)

lemma choose_daily_levels_eq:
  "choose_daily_levels h4s h4d h1s h1d wv wp wh fv fp fh =
     (let S0 = fst (select_support h4d h1d wv wp wh fv fp fh);
          R0 = fst (select_resistance h4s h1s wv wp wh fv fp fh)
      in (if R0 \<le> S0 then min h4d h1d else S0,
          if R0 \<le> S0 then max h4s h1s else R0,
          snd (select_resistance h4s h1s wv wp wh fv fp fh),
          snd (select_support h4d h1d wv wp wh fv fp fh)))"
  by (simp add: choose_daily_levels_def Let_def case_prod_beta)

text \<open>
  Claim C5. On each side the two shelves are returned in the order 4H, 1H; the 4H shelf
  is primary exactly when its strength is greater than or equal to the 1H strength, the
  1H shelf exactly when it is not, so exactly one of the two is primary; and the
  strength-selected daily level, before the safety fallback, is the primary shelf's
  level. The comparison is \<open>\<ge>\<close>, so equal strengths select the 4H shelf.
\<close>

theorem primary_selection:
  "(let s4h = htf_strength h4d ''4H'' ''support'' wv wp wh fv fp fh;
        s1h = htf_strength h1d ''1H'' ''support'' wv wp wh fv fp fh;
        r4h = htf_strength h4s ''4H'' ''resistance'' wv wp wh fv fp fh;
        r1h = htf_strength h1s ''1H'' ''resistance'' wv wp wh fv fp fh;
        (S0, sup0) = select_support h4d h1d wv wp wh fv fp fh;
        (R0, res0) = select_resistance h4s h1s wv wp wh fv fp fh;
        (S, R, res, sup) = choose_daily_levels h4s h4d h1s h1d wv wp wh fv fp fh
    in sup = [\<lparr>tf = ''4H'', level = h4d, strength = s4h, primary = (s4h \<ge> s1h)\<rparr>,
              \<lparr>tf = ''1H'', level = h1d, strength = s1h, primary = (\<not> s4h \<ge> s1h)\<rparr>]
       \<and> res = [\<lparr>tf = ''4H'', level = h4s, strength = r4h, primary = (r4h \<ge> r1h)\<rparr>,
                \<lparr>tf = ''1H'', level = h1s, strength = r1h, primary = (\<not> r4h \<ge> r1h)\<rparr>]
       \<and> sup = sup0 \<and> res = res0
       \<and> primary (sup ! 0) = (\<not> primary (sup ! 1))
       \<and> primary (res ! 0) = (\<not> primary (res ! 1))
       \<and> S0 = (if s4h \<ge> s1h then h4d else h1d)
       \<and> R0 = (if r4h \<ge> r1h then h4s else h1s))"
  by (simp add: choose_daily_levels_eq select_support_eq select_resistance_eq Let_def)

text \<open>
  With the placeholder factors a 4H strength is one of 5.0, 6.7, 8.3 and a 1H strength
  one of 4.2, 5.8, 7.5: the two strengths compared on one side are never equal.
\<close>

lemma htf_strength_4H_values:
  "htf_strength x ''4H'' r wv wp wh fv fp fh \<in> {5.0, 6.7, 8.3}"
proof -
  have "htf_raw x ''4H'' r wv wp wh fv fp fh \<in> {6, 8, 10}"
    using frvp_alignment_range [of x r wv wp wh fv fp fh] by (auto simp add: htf_raw_eq)
  then consider "htf_raw x ''4H'' r wv wp wh fv fp fh = 6"
    | "htf_raw x ''4H'' r wv wp wh fv fp fh = 8"
    | "htf_raw x ''4H'' r wv wp wh fv fp fh = 10"
    by auto
  then show ?thesis
    by cases (simp_all only: htf_strength_eq scaled_values, simp_all)
qed

lemma htf_strength_1H_values:
  "htf_strength x ''1H'' r wv wp wh fv fp fh \<in> {4.2, 5.8, 7.5}"
proof -
  have "htf_raw x ''1H'' r wv wp wh fv fp fh \<in> {5, 7, 9}"
    using frvp_alignment_range [of x r wv wp wh fv fp fh] by (auto simp add: htf_raw_eq)
  then consider "htf_raw x ''1H'' r wv wp wh fv fp fh = 5"
    | "htf_raw x ''1H'' r wv wp wh fv fp fh = 7"
    | "htf_raw x ''1H'' r wv wp wh fv fp fh = 9"
    by auto
  then show ?thesis
    by cases (simp_all only: htf_strength_eq scaled_values, simp_all)
qed

lemma strengths_never_tie:
  "htf_strength x ''4H'' r wv wp wh fv fp fh \<noteq> htf_strength y ''1H'' r' wv' wp' wh' fv' fp' fh'"
  using htf_strength_4H_values [of x r wv wp wh fv fp fh]
    htf_strength_1H_values [of y r' wv' wp' wh' fv' fp' fh']
  by auto






section \<open>The public function\<close>

lemma compute_dm_levels_eq:
  "compute_dm_levels h4s h4d h1s h1d wv wp wh fv fp fh mv mp mh rh rl =
     (let c = choose_daily_levels h4s h4d h1s h1d wv wp wh fv fp fh;
          t = build_triggers (fst c) (fst (snd c)) h4s h4d h1s h1d fv fp fh mv mp mh rh rl
      in \<lparr>daily_support = round1 (fst c),
          daily_resistance = round1 (fst (snd c)),
          breakout_trigger = round1 (snd t),
          breakdown_trigger = round1 (fst t),
          htf_resistance = fst (snd (snd c)),
          htf_support = snd (snd (snd c))\<rparr>)"
  by (simp add: compute_dm_levels_def Let_def case_prod_beta)

lemma shelf_strengths:
  "map strength (snd (select_support h4d h1d wv wp wh fv fp fh)) =
     [round1 (htf_unrounded h4d ''4H'' ''support'' wv wp wh fv fp fh),
      round1 (htf_unrounded h1d ''1H'' ''support'' wv wp wh fv fp fh)]"
  "map strength (snd (select_resistance h4s h1s wv wp wh fv fp fh)) =
     [round1 (htf_unrounded h4s ''4H'' ''resistance'' wv wp wh fv fp fh),
      round1 (htf_unrounded h1s ''1H'' ''resistance'' wv wp wh fv fp fh)]"
  by (simp_all add: select_support_eq select_resistance_eq htf_strength_def Let_def)

text \<open>
  Claim C7. Each of the four scalar fields of the result is the unrounded value it comes
  from (the selected levels and the pair of the trigger builder) rounded to one decimal:
  it is \<open>round(x, 1)\<close> of that value, a whole number of tenths within half a tenth of
  it. Each shelf strength is likewise the rounding of the unrounded strength of line
  125, and \<open>8.333...\<close> rounds to \<open>8.3\<close>.
\<close>

theorem compute_dm_levels_rounded:
  "(let (S, R, res, sup) = choose_daily_levels h4s h4d h1s h1d wv wp wh fv fp fh;
        (bd, bo) = build_triggers S R h4s h4d h1s h1d fv fp fh mv mp mh rh rl;
        out = compute_dm_levels h4s h4d h1s h1d wv wp wh fv fp fh mv mp mh rh rl
    in daily_support out = round1 S \<and> nearest_tenth S (daily_support out)
       \<and> daily_resistance out = round1 R \<and> nearest_tenth R (daily_resistance out)
       \<and> breakout_trigger out = round1 bo \<and> nearest_tenth bo (breakout_trigger out)
       \<and> breakdown_trigger out = round1 bd \<and> nearest_tenth bd (breakdown_trigger out)
       \<and> map strength (htf_support out) =
            [round1 (htf_unrounded h4d ''4H'' ''support'' wv wp wh fv fp fh),
             round1 (htf_unrounded h1d ''1H'' ''support'' wv wp wh fv fp fh)]
       \<and> map strength (htf_resistance out) =
            [round1 (htf_unrounded h4s ''4H'' ''resistance'' wv wp wh fv fp fh),
             round1 (htf_unrounded h1s ''1H'' ''resistance'' wv wp wh fv fp fh)]
       \<and> nearest_tenth (htf_unrounded h4d ''4H'' ''support'' wv wp wh fv fp fh)
            (strength (htf_support out ! 0))
       \<and> nearest_tenth (htf_unrounded h1d ''1H'' ''support'' wv wp wh fv fp fh)
            (strength (htf_support out ! 1))
       \<and> nearest_tenth (htf_unrounded h4s ''4H'' ''resistance'' wv wp wh fv fp fh)
            (strength (htf_resistance out ! 0))
       \<and> nearest_tenth (htf_unrounded h1s ''1H'' ''resistance'' wv wp wh fv fp fh)
            (strength (htf_resistance out ! 1))
       \<and> round1 (25 / 3) = 8.3)"
proof -
  have s: "strength (snd (select_support h4d h1d wv wp wh fv fp fh) ! 0)
             = round1 (htf_unrounded h4d ''4H'' ''support'' wv wp wh fv fp fh)"
     "strength (snd (select_support h4d h1d wv wp wh fv fp fh) ! 1)
             = round1 (htf_unrounded h1d ''1H'' ''support'' wv wp wh fv fp fh)"
     "strength (snd (select_resistance h4s h1s wv wp wh fv fp fh) ! 0)
             = round1 (htf_unrounded h4s ''4H'' ''resistance'' wv wp wh fv fp fh)"
     "strength (snd (select_resistance h4s h1s wv wp wh fv fp fh) ! 1)
             = round1 (htf_unrounded h1s ''1H'' ''resistance'' wv wp wh fv fp fh)"
    by (simp_all add: select_support_eq select_resistance_eq htf_strength_def Let_def)
  have c: "fst (snd (snd (choose_daily_levels h4s h4d h1s h1d wv wp wh fv fp fh)))
             = snd (select_resistance h4s h1s wv wp wh fv fp fh)"
    "snd (snd (snd (choose_daily_levels h4s h4d h1s h1d wv wp wh fv fp fh)))
             = snd (select_support h4d h1d wv wp wh fv fp fh)"
    by (simp_all add: choose_daily_levels_eq Let_def)
  show ?thesis
    unfolding compute_dm_levels_eq Let_def case_prod_beta
    by (simp only: select_convs c s shelf_strengths round1_nearest_tenth round1_example)
qed

section \<open>The ordering of the result\<close>

text \<open>
  Claim C1 does not hold of the code. On a band narrower than twice the spacing the
  final clamps of lines 320--321 keep the spacing from the support and push the breakout
  trigger above the resistance. With supply shelves 5010 and 5008, demand shelves 5000
  and 5002 (not all equal), weekly marks 4990, 5005, 5020, 24h marks 5001, 5005, 5009,
  morning marks 5003, 5005, 5007 and the opening range 5006 to 5004, the result is
  support 5000, breakdown 5007.5, breakout 5015 and resistance 5010.
\<close>

theorem compute_dm_levels_narrow_band:
  "compute_dm_levels 5010 5000 5008 5002 4990 5005 5020 5001 5005 5009 5003 5005 5007 5006 5004
     = \<lparr>daily_support = 5000, daily_resistance = 5010, breakout_trigger = 5015,
        breakdown_trigger = 5007.5,
        htf_resistance =
          [\<lparr>tf = ''4H'', level = 5010, strength = 8.3, primary = True\<rparr>,
           \<lparr>tf = ''1H'', level = 5008, strength = 7.5, primary = False\<rparr>],
        htf_support =
          [\<lparr>tf = ''4H'', level = 5000, strength = 8.3, primary = True\<rparr>,
           \<lparr>tf = ''1H'', level = 5002, strength = 7.5, primary = False\<rparr>]\<rparr>"
proof -
  have s4: "htf_strength 5000 ''4H'' ''support'' 4990 5005 5020 5001 5005 5009 = 8.3"
    by (simp add: engine_defs)
  have s1: "htf_strength 5002 ''1H'' ''support'' 4990 5005 5020 5001 5005 5009 = 7.5"
    by (simp add: engine_defs)
  have r4: "htf_strength 5010 ''4H'' ''resistance'' 4990 5005 5020 5001 5005 5009 = 8.3"
    by (simp add: engine_defs)
  have r1: "htf_strength 5008 ''1H'' ''resistance'' 4990 5005 5020 5001 5005 5009 = 7.5"
    by (simp add: engine_defs)
  have c: "choose_daily_levels 5010 5000 5008 5002 4990 5005 5020 5001 5005 5009 =
      (5000, 5010,
       [\<lparr>tf = ''4H'', level = 5010, strength = 8.3, primary = True\<rparr>,
        \<lparr>tf = ''1H'', level = 5008, strength = 7.5, primary = False\<rparr>],
       [\<lparr>tf = ''4H'', level = 5000, strength = 8.3, primary = True\<rparr>,
        \<lparr>tf = ''1H'', level = 5002, strength = 7.5, primary = False\<rparr>])"
    by (simp add: choose_daily_levels_eq select_support_eq select_resistance_eq s4 s1 r4 r1)
  have t: "build_triggers 5000 5010 5010 5000 5008 5002 5001 5005 5009 5003 5005 5007 5006 5004
      = (5007.5, 5015)"
    by (simp add: build_triggers_def Let_def)
  have r: "round1 5000 = 5000" "round1 5010 = 5010" "round1 5015 = 5015"
    "round1 (10015 / 2) = 10015 / 2"
    by (simp_all add: round1_def py_round_def Let_def)
  show ?thesis
    by (simp add: compute_dm_levels_def c t r)
qed

text \<open>
  The unrounded breakout trigger is below the resistance exactly when the band is wider
  than twice the spacing.
\<close>

lemma build_triggers_shape:
  "\<exists>b c. build_triggers S R h4s h4d h1s h1d fv fp fh mv mp mh rh rl =
     (max (S + min_gap S R) (min b (R - 2 * min_gap S R)),
      max (max (S + min_gap S R) (min b (R - 2 * min_gap S R)) + min_gap S R)
        (min c (R - min_gap S R)))"
  unfolding build_triggers_def min_gap_def Let_def case_prod_beta
  by (intro exI) (rule refl)

lemma breakout_below_resistance_iff:
  "snd (build_triggers S R h4s h4d h1s h1d fv fp fh mv mp mh rh rl) < R
     \<longleftrightarrow> S + 2 * min_gap S R < R"
proof -
  have g: "0 < min_gap S R"
    using min_gap_ge [of S R] by simp
  obtain b c where "build_triggers S R h4s h4d h1s h1d fv fp fh mv mp mh rh rl =
     (max (S + min_gap S R) (min b (R - 2 * min_gap S R)),
      max (max (S + min_gap S R) (min b (R - 2 * min_gap S R)) + min_gap S R)
        (min c (R - min_gap S R)))"
    using build_triggers_shape by blast
  then show ?thesis
    using g by (auto simp add: max_def min_def)
qed

text \<open>
  When the selected band is at least three spacings wide and the spacing exceeds a
  tenth, the rounded result is strictly ordered.
\<close>

lemma breakout_upper:
  assumes "S + 3 * min_gap S R \<le> R"
  shows "snd (build_triggers S R h4s h4d h1s h1d fv fp fh mv mp mh rh rl) + min_gap S R \<le> R"
proof -
  obtain b c where "build_triggers S R h4s h4d h1s h1d fv fp fh mv mp mh rh rl =
     (max (S + min_gap S R) (min b (R - 2 * min_gap S R)),
      max (max (S + min_gap S R) (min b (R - 2 * min_gap S R)) + min_gap S R)
        (min c (R - min_gap S R)))"
    using build_triggers_shape by blast
  then show ?thesis
    using assms by (auto simp add: max_def min_def)
qed

lemma round1_strict:
  assumes "x + g \<le> y" and "1 / 10 < g"
  shows "round1 x < round1 y"
proof -
  have "\<bar>round1 x - x\<bar> \<le> 1 / 20" and "\<bar>round1 y - y\<bar> \<le> 1 / 20"
    by (rule round1_near)+
  with assms show ?thesis
    by linarith
qed

lemma ordering_wide_band:
  assumes c: "choose_daily_levels h4s h4d h1s h1d wv wp wh fv fp fh = (S, R, rsh, ssh)"
    and wide: "S + 3 * min_gap S R \<le> R"
    and gap: "1 / 10 < min_gap S R"
  shows "(let out = compute_dm_levels h4s h4d h1s h1d wv wp wh fv fp fh mv mp mh rh rl
          in daily_support out < breakdown_trigger out
             \<and> breakdown_trigger out < breakout_trigger out
             \<and> breakout_trigger out < daily_resistance out)"
proof -
  let ?t = "build_triggers S R h4s h4d h1s h1d fv fp fh mv mp mh rh rl"
  have 1: "round1 S < round1 (fst ?t)"
    using build_triggers_breakdown_ge gap by (rule round1_strict)
  have 2: "round1 (fst ?t) < round1 (snd ?t)"
    using build_triggers_breakout_ge gap by (rule round1_strict)
  have 3: "round1 (snd ?t) < round1 R"
    using breakout_upper [OF wide] gap by (rule round1_strict)
  from 1 2 3 show ?thesis
    by (simp add: compute_dm_levels_eq c Let_def)
qed

text \<open>
  Scenario A of the specification is such an input: the selected band is 90 to 110, the
  spacing is 1, and the result is 90 < 91 < 109 < 110.
\<close>

lemma ordering_wide_band_scenario_A:
  "(let out = compute_dm_levels 110 90 108 92 89 95 109 91 96 107 93 97 105 100 98
    in daily_support out < breakdown_trigger out
       \<and> breakdown_trigger out < breakout_trigger out
       \<and> breakout_trigger out < daily_resistance out)"
proof -
  have s4: "htf_strength 90 ''4H'' ''support'' 89 95 109 91 96 107 = 5"
    by (simp add: engine_defs)
  have s1: "htf_strength 92 ''1H'' ''support'' 89 95 109 91 96 107 = 4.2"
    by (simp add: engine_defs)
  have r4: "htf_strength 110 ''4H'' ''resistance'' 89 95 109 91 96 107 = 5"
    by (simp add: engine_defs)
  have r1: "htf_strength 108 ''1H'' ''resistance'' 89 95 109 91 96 107 = 4.2"
    by (simp add: engine_defs)
  have c: "choose_daily_levels 110 90 108 92 89 95 109 91 96 107 =
      (90, 110,
       [\<lparr>tf = ''4H'', level = 110, strength = 5, primary = True\<rparr>,
        \<lparr>tf = ''1H'', level = 108, strength = 4.2, primary = False\<rparr>],
       [\<lparr>tf = ''4H'', level = 90, strength = 5, primary = True\<rparr>,
        \<lparr>tf = ''1H'', level = 92, strength = 4.2, primary = False\<rparr>])"
    by (simp add: choose_daily_levels_eq select_support_eq select_resistance_eq s4 s1 r4 r1)
  have g: "min_gap 90 110 = 1"
    by (simp add: min_gap_def)
  have wide: "90 + 3 * min_gap 90 110 \<le> 110" and gap: "1 / 10 < min_gap 90 110"
    by (simp_all add: g)
  from c wide gap show ?thesis
    by (rule ordering_wide_band)
qed

lemma scenario_A_values:
  "(let out = compute_dm_levels 110 90 108 92 89 95 109 91 96 107 93 97 105 100 98
    in daily_support out = 90 \<and> breakdown_trigger out = 91
       \<and> breakout_trigger out = 109 \<and> daily_resistance out = 110)"
proof -
  have s4: "htf_strength 90 ''4H'' ''support'' 89 95 109 91 96 107 = 5"
    by (simp add: engine_defs)
  have s1: "htf_strength 92 ''1H'' ''support'' 89 95 109 91 96 107 = 4.2"
    by (simp add: engine_defs)
  have r4: "htf_strength 110 ''4H'' ''resistance'' 89 95 109 91 96 107 = 5"
    by (simp add: engine_defs)
  have r1: "htf_strength 108 ''1H'' ''resistance'' 89 95 109 91 96 107 = 4.2"
    by (simp add: engine_defs)
  have c: "fst (choose_daily_levels 110 90 108 92 89 95 109 91 96 107) = 90"
    "fst (snd (choose_daily_levels 110 90 108 92 89 95 109 91 96 107)) = 110"
    by (simp_all add: choose_daily_levels_eq select_support_eq select_resistance_eq s4 s1 r4 r1)
  have t: "build_triggers 90 110 110 90 108 92 91 96 107 93 97 105 100 98 = (91, 109)"
    by (simp add: build_triggers_def Let_def)
  have r: "round1 90 = 90" "round1 110 = 110" "round1 91 = 91" "round1 109 = 109"
    by (simp_all add: round1_def py_round_def Let_def)
  show ?thesis
    by (simp add: compute_dm_levels_eq c t r Let_def)
qed

end
